theory Spec2Isabelle
  imports Main
begin

section \<open>Data model\<close>

text \<open>
  The numbers of the source are modelled as unbounded integers: prices are whole rupiah
  amounts and quantities are counts (\<open>parseInt\<close> at every input form). The only falsy
  number in this model is \<open>0\<close>. An optional field (\<open>image?\<close>, \<open>bundle?\<close>, \<open>note?\<close>,
  \<open>isPrepared?\<close>) is an \<open>option\<close>, with \<open>None\<close> for \<open>undefined\<close>.

  Field names follow the source except where the name is taken in HOL or would be declared
  twice: \<open>id\<close> is \<open>item_id\<close> and \<open>order_id\<close>, \<open>image\<close> is \<open>item_image\<close>, \<open>note\<close> is
  \<open>item_note\<close> and \<open>order_note\<close>, \<open>total\<close> is \<open>order_total\<close>, and the fields of the
  argument of \<open>createOrder\<close> carry the prefix \<open>od_\<close>.
\<close>

datatype category = Coffee | Tea | Food | Dessert | Other

record bundleConfig =
  enabled :: bool
  buyQuantity :: int
  bundlePrice :: int
  showPromoLabel :: bool

text \<open>\<open>Omit<MenuItem, 'id'>\<close>, the argument type of \<open>addMenuItem\<close>.\<close>

record menu_item_data =
  name :: string
  basePrice :: int
  category :: category
  item_image :: "string option"
  "bundle" :: "bundleConfig option"

text \<open>\<open>MenuItem\<close>.\<close>

record menu_item = menu_item_data +
  item_id :: string

text \<open>\<open>CartItem extends MenuItem\<close>.\<close>

record cart_item = menu_item +
  quantity :: int
  item_note :: "string option"
  isPrepared :: "bool option"

datatype order_status = Pending | Paid | Completed | Cancelled | Preparing | PickedUp

datatype payment_status = PaymentPaid | PaymentUnpaid

record order =
  order_id :: string
  customerName :: string
  items :: "cart_item list"
  order_total :: int
  status :: order_status
  paymentStatus :: payment_status
  createdAt :: string
  order_note :: "string option"

text \<open>\<open>Omit<Order, 'id' | 'createdAt' | 'status'>\<close>, the argument type of \<open>createOrder\<close>.\<close>

record order_data =
  od_customerName :: string
  od_items :: "cart_item list"
  od_total :: int
  od_paymentStatus :: payment_status
  od_note :: "string option"

section \<open>Pricing\<close>

text \<open>
  \<open>Math.floor(a / b)\<close> on integers with \<open>b \<noteq> 0\<close> is the quotient rounded towards minus
  infinity, which is \<open>div\<close> on \<open>int\<close>. The remainder operator \<open>%\<close> of the source
  truncates instead: its result has the sign of the dividend.
\<close>

definition js_rem :: "int \<Rightarrow> int \<Rightarrow> int" where
  "js_rem a b = sgn a * (\<bar>a\<bar> mod \<bar>b\<bar>)"

definition math_floor_div :: "int \<Rightarrow> int \<Rightarrow> int" where
  "math_floor_div a b = a div b"

definition calculateItemTotal :: "'a menu_item_scheme \<Rightarrow> int \<Rightarrow> int" where
  "calculateItemTotal item qty =
     (case bundle item of
        None \<Rightarrow> basePrice item * qty
      | Some b \<Rightarrow>
          if \<not> enabled b \<or> buyQuantity b = 0 \<or> bundlePrice b = 0
          then basePrice item * qty
          else
            (let bundleCount = math_floor_div qty (buyQuantity b);
                 remaining = js_rem qty (buyQuantity b)
             in (bundleCount * bundlePrice b) + (remaining * basePrice item)))"

text \<open>The second entry of \<open>DEFAULT_MENU\<close>, the item of the spec's pricing scenario.\<close>

definition iced_latte :: menu_item where
  "iced_latte =
     \<lparr> name = ''Iced Latte'', basePrice = 35000, category = Coffee, item_image = None,
       bundle = Some \<lparr> enabled = True, buyQuantity = 2, bundlePrice = 60000,
                       showPromoLabel = True \<rparr>,
       item_id = ''2'' \<rparr>"

section \<open>Backend documents\<close>

text \<open>
  A row of the table \<open>menu_items\<close> as \<open>mapDbMenuItem\<close> receives it, with the snake-case
  columns of the schema. Column names are prefixed with \<open>m_\<close> here, with \<open>o_\<close> for the
  table \<open>orders\<close>, and with \<open>mi_\<close> and \<open>oi_\<close> for the documents the store sends to
  insert a row.
\<close>

record menu_row =
  m_id :: string
  m_name :: string
  m_base_price :: int
  m_category :: category
  m_image :: "string option"
  m_bundle_config :: "bundleConfig option"
  m_created_at :: string

record order_row =
  o_id :: string
  o_customer_name :: string
  o_items :: "cart_item list"
  o_total :: int
  o_status :: order_status
  o_payment_status :: payment_status
  o_note :: "string option"
  o_created_at :: string

text \<open>The object \<open>dbItem\<close> built by \<open>addMenuItem\<close>: it has these four fields only.\<close>

record menu_insert =
  mi_name :: string
  mi_base_price :: int
  mi_category :: category
  mi_bundle_config :: "bundleConfig option"

text \<open>The object \<open>dbOrder\<close> built by \<open>createOrder\<close>.\<close>

record order_insert =
  oi_customer_name :: string
  oi_items :: "cart_item list"
  oi_total :: int
  oi_status :: order_status
  oi_payment_status :: payment_status
  oi_note :: "string option"

text \<open>
  What the tables of the SQL schema store for an inserted document: the generated \<open>id\<close> and
  \<open>created_at\<close> are parameters, a column the document does not give takes its default
  (\<open>image\<close> has none and is null; the default document of \<open>bundle_config\<close> is the
  parameter \<open>dflt\<close>).
\<close>

definition menu_items_insert ::
  "string \<Rightarrow> string \<Rightarrow> bundleConfig option \<Rightarrow> menu_insert \<Rightarrow> menu_row" where
  "menu_items_insert new_id now dflt doc =
     \<lparr> m_id = new_id, m_name = mi_name doc, m_base_price = mi_base_price doc,
       m_category = mi_category doc, m_image = None,
       m_bundle_config = (case mi_bundle_config doc of None \<Rightarrow> dflt | Some b \<Rightarrow> Some b),
       m_created_at = now \<rparr>"

definition orders_insert :: "string \<Rightarrow> string \<Rightarrow> order_insert \<Rightarrow> order_row" where
  "orders_insert new_id now doc =
     \<lparr> o_id = new_id, o_customer_name = oi_customer_name doc, o_items = oi_items doc,
       o_total = oi_total doc, o_status = oi_status doc,
       o_payment_status = oi_payment_status doc, o_note = oi_note doc,
       o_created_at = now \<rparr>"

definition mapDbMenuItem :: "menu_row \<Rightarrow> menu_item" where
  "mapDbMenuItem dbItem =
     \<lparr> name = m_name dbItem, basePrice = m_base_price dbItem,
       category = m_category dbItem, item_image = m_image dbItem,
       bundle = m_bundle_config dbItem, item_id = m_id dbItem \<rparr>"

definition mapDbOrder :: "order_row \<Rightarrow> order" where
  "mapDbOrder dbOrder =
     \<lparr> order_id = o_id dbOrder, customerName = o_customer_name dbOrder,
       items = o_items dbOrder, order_total = o_total dbOrder, status = o_status dbOrder,
       paymentStatus = o_payment_status dbOrder, createdAt = o_created_at dbOrder,
       order_note = o_note dbOrder \<rparr>"

section \<open>The store\<close>

text \<open>
  The state of \<open>StoreProvider\<close>: the two collections, the flag \<open>isRealtime\<close>, whether the
  client \<open>supabase\<close> is non-null, and the two keys of local storage. A call to the backend
  is recorded as a request, returned by the action that makes it.
\<close>

record store =
  menu :: "menu_item list"
  orders :: "order list"
  isRealtime :: bool
  supabase :: bool
  pos_menu :: "menu_item list option"
  pos_orders :: "order list option"

datatype request =
    MenuItemsInsert menu_insert
  | OrdersInsert order_insert
  | OrdersUpdate string "cart_item list" order_status
  | OrdersDelete string

text \<open>The two effects that write the collections to local storage after a change.\<close>

definition sync_local_storage :: "store \<Rightarrow> store" where
  "sync_local_storage s =
     (if \<not> isRealtime s
      then s\<lparr> pos_menu := Some (menu s), pos_orders := Some (orders s) \<rparr>
      else s)"

text \<open>A push notification: its \<open>eventType\<close> with \<open>payload.new\<close>, or with \<open>payload.old.id\<close>.\<close>

datatype 'r payload = INSERT 'r | UPDATE 'r | DELETE string

fun menu_changes :: "store \<Rightarrow> menu_row payload \<Rightarrow> store" where
  "menu_changes s (INSERT new) = s\<lparr> menu := menu s @ [mapDbMenuItem new] \<rparr>"
| "menu_changes s (UPDATE new) =
     s\<lparr> menu := map (\<lambda>item. if item_id item = m_id new then mapDbMenuItem new else item)
                    (menu s) \<rparr>"
| "menu_changes s (DELETE old_id) =
     s\<lparr> menu := filter (\<lambda>item. item_id item \<noteq> old_id) (menu s) \<rparr>"

fun orders_changes :: "store \<Rightarrow> order_row payload \<Rightarrow> store" where
  "orders_changes s (INSERT new) = s\<lparr> orders := mapDbOrder new # orders s \<rparr>"
| "orders_changes s (UPDATE new) =
     s\<lparr> orders := map (\<lambda>order. if order_id order = o_id new then mapDbOrder new else order)
                      (orders s) \<rparr>"
| "orders_changes s (DELETE old_id) = s"

definition addMenuItem_dbItem :: "menu_item_data \<Rightarrow> menu_insert" where
  "addMenuItem_dbItem item =
     \<lparr> mi_name = name item, mi_base_price = basePrice item, mi_category = category item,
       mi_bundle_config = bundle item \<rparr>"

definition addMenuItem :: "store \<Rightarrow> string \<Rightarrow> menu_item_data \<Rightarrow> store \<times> request list" where
  "addMenuItem s generated_id item =
     (if isRealtime s \<and> supabase s
      then (s, [MenuItemsInsert (addMenuItem_dbItem item)])
      else
        (let newItem = \<lparr> name = name item, basePrice = basePrice item,
                          category = category item, item_image = item_image item,
                          bundle = bundle item, item_id = generated_id \<rparr>
         in (s\<lparr> menu := menu s @ [newItem] \<rparr>, [])))"

definition deleteOrder :: "store \<Rightarrow> string \<Rightarrow> store \<times> request list" where
  "deleteOrder s oid =
     (if isRealtime s \<and> supabase s
      then (s, [OrdersDelete oid])
      else (s\<lparr> orders := filter (\<lambda>order. order_id order \<noteq> oid) (orders s) \<rparr>, []))"

definition newOrderLocal :: "string \<Rightarrow> string \<Rightarrow> order_data \<Rightarrow> order" where
  "newOrderLocal generated_id now orderData =
     \<lparr> order_id = generated_id, customerName = od_customerName orderData,
       items = map (\<lambda>item. item\<lparr> isPrepared := Some False \<rparr>) (od_items orderData),
       order_total = od_total orderData,
       status = (if od_paymentStatus orderData = PaymentPaid then Paid else Pending),
       paymentStatus = od_paymentStatus orderData, createdAt = now,
       order_note = od_note orderData \<rparr>"

text \<open>
  \<open>createOrder\<close>. The identifier and the time stamp it generates are parameters, and so is
  the backend's answer to the insert (\<open>data\<close>, or \<open>None\<close> when there is none).
\<close>

definition createOrder ::
  "store \<Rightarrow> (order_insert \<Rightarrow> order_row option) \<Rightarrow> string \<Rightarrow> string \<Rightarrow> order_data
     \<Rightarrow> store \<times> request list \<times> order option" where
  "createOrder s backend generated_id now orderData =
     (let new = newOrderLocal generated_id now orderData
      in if isRealtime s \<and> supabase s
         then
           (let dbOrder = \<lparr> oi_customer_name = od_customerName orderData,
                             oi_items = items new, oi_total = od_total orderData,
                             oi_status = status new,
                             oi_payment_status = od_paymentStatus orderData,
                             oi_note = od_note orderData \<rparr>
            in (s, [OrdersInsert dbOrder],
                case backend dbOrder of Some data \<Rightarrow> Some (mapDbOrder data) | None \<Rightarrow> None))
         else (s\<lparr> orders := new # orders s \<rparr>, [], Some new))"

text \<open>A flag that may be \<open>undefined\<close> counts as set only when it is \<open>true\<close>.\<close>

definition truthy :: "bool option \<Rightarrow> bool" where
  "truthy b = (b = Some True)"

definition updatedItems :: "cart_item list \<Rightarrow> string \<Rightarrow> cart_item list" where
  "updatedItems its itemId =
     map (\<lambda>item. if item_id item = itemId
                  then item\<lparr> isPrepared := Some (\<not> truthy (isPrepared item)) \<rparr>
                  else item) its"

definition newStatus :: "order_status \<Rightarrow> cart_item list \<Rightarrow> order_status" where
  "newStatus current its =
     (let totalItems = length its;
          preparedCount = length (filter (\<lambda>i. truthy (isPrepared i)) its)
      in if current \<noteq> Cancelled \<and> current \<noteq> PickedUp
         then (if preparedCount = 0 then Pending
               else if preparedCount = totalItems then Completed
               else Preparing)
         else current)"

definition toggleOrderItemPrepared ::
  "store \<Rightarrow> string \<Rightarrow> string \<Rightarrow> store \<times> request list" where
  "toggleOrderItemPrepared s orderId itemId =
     (case find (\<lambda>o'. order_id o' = orderId) (orders s) of
        None \<Rightarrow> (s, [])
      | Some order \<Rightarrow>
          (let its = updatedItems (items order) itemId;
               st = newStatus (status order) its
           in if isRealtime s \<and> supabase s
              then (s, [OrdersUpdate orderId its st])
              else (s\<lparr> orders := map (\<lambda>o'. if order_id o' = orderId
                                             then o'\<lparr> items := its, status := st \<rparr>
                                             else o') (orders s) \<rparr>, [])))"

text \<open>One toggle followed by the effects, and a sequence of toggles.\<close>

definition toggle_step :: "store \<times> request list \<Rightarrow> string \<times> string \<Rightarrow> store \<times> request list" where
  "toggle_step acc call =
     (let (s', reqs) = toggleOrderItemPrepared (fst acc) (fst call) (snd call)
      in (sync_local_storage s', snd acc @ reqs))"

definition toggle_many :: "store \<Rightarrow> (string \<times> string) list \<Rightarrow> store \<times> request list" where
  "toggle_many s calls = foldl toggle_step (s, []) calls"

datatype error = Error string

definition useStore :: "'c option \<Rightarrow> error + 'c" where
  "useStore context =
     (case context of
        None \<Rightarrow> Inl (Error ''useStore must be used within a StoreProvider'')
      | Some c \<Rightarrow> Inr c)"

section \<open>Example data\<close>

text \<open>A cart line as the cashier view builds it, and an order of three lines.\<close>

definition cart_line :: "string \<Rightarrow> bool option \<Rightarrow> cart_item" where
  "cart_line iid prepared =
     \<lparr> name = ''Croissant'', basePrice = 20000, category = Food, item_image = None,
       bundle = None, item_id = iid, quantity = 1, item_note = None,
       isPrepared = prepared \<rparr>"

definition three_item_order :: "order_status \<Rightarrow> order" where
  "three_item_order st =
     \<lparr> order_id = ''o1'', customerName = ''Guest'',
       items = [cart_line ''1'' (Some False), cart_line ''2'' (Some False),
                cart_line ''3'' (Some False)],
       order_total = 60000, status = st, paymentStatus = PaymentUnpaid,
       createdAt = ''2024-01-01T00:00:00.000Z'', order_note = None \<rparr>"

definition empty_order :: order where
  "empty_order =
     \<lparr> order_id = ''o2'', customerName = ''Guest'', items = [], order_total = 0,
       status = Preparing, paymentStatus = PaymentUnpaid,
       createdAt = ''2024-01-01T00:00:00.000Z'', order_note = None \<rparr>"

text \<open>A store on local storage and a store on the realtime backend.\<close>

definition local_store :: "order list \<Rightarrow> store" where
  "local_store os =
     \<lparr> menu = [iced_latte], orders = os, isRealtime = False, supabase = False,
       pos_menu = None, pos_orders = None \<rparr>"

definition realtime_store :: "order list \<Rightarrow> store" where
  "realtime_store os =
     \<lparr> menu = [iced_latte], orders = os, isRealtime = True, supabase = True,
       pos_menu = None, pos_orders = None \<rparr>"

text \<open>An order paid at the counter, and a menu item that has an image.\<close>

definition paid_order_data :: order_data where
  "paid_order_data =
     \<lparr> od_customerName = ''Guest'',
       od_items = [cart_line ''1'' None, cart_line ''2'' None],
       od_total = 40000, od_paymentStatus = PaymentPaid, od_note = None \<rparr>"

definition unpaid_order_data :: order_data where
  "unpaid_order_data = paid_order_data\<lparr> od_paymentStatus := PaymentUnpaid \<rparr>"

definition latte_with_image :: menu_item_data where
  "latte_with_image =
     \<lparr> name = ''Iced Latte'', basePrice = 35000, category = Coffee,
       item_image = Some ''latte.png'',
       bundle = Some \<lparr> enabled = True, buyQuantity = 2, bundlePrice = 60000,
                       showPromoLabel = True \<rparr> \<rparr>"

section \<open>Properties of the pricing function\<close>

lemma js_rem_nonneg: "0 \<le> a \<Longrightarrow> js_rem a b = a mod \<bar>b\<bar>"
  by (cases "a = 0") (simp_all add: js_rem_def)

lemma js_rem_multiple: "js_rem (k * b) b = 0"
  by (simp add: js_rem_def abs_mult)

text \<open>
  C2. For a quantity \<open>q \<ge> 0\<close>: with no bundle, a disabled bundle, or a bundle whose
  \<open>buyQuantity\<close> or \<open>bundlePrice\<close> is 0, the total is \<open>basePrice * q\<close>; otherwise it is
  \<open>floor (q / buyQuantity) * bundlePrice + (q mod buyQuantity) * basePrice\<close>. The
  remainder of the source is the least non-negative residue of \<open>q\<close> modulo \<open>buyQuantity\<close>,
  written \<open>q mod \<bar>buyQuantity\<bar>\<close> in the first part; the second part states the formula
  with \<open>q mod buyQuantity\<close> itself for a positive \<open>buyQuantity\<close>. At base price 35000 with
  the bundle 2 for 60000, the quantities 2, 3 and 5 cost 60000, 95000 and 155000.
\<close>

theorem calculateItemTotal_spec:
  "(0 \<le> q \<longrightarrow>
      calculateItemTotal item q =
        (case bundle item of
           None \<Rightarrow> basePrice item * q
         | Some b \<Rightarrow>
             if \<not> enabled b \<or> buyQuantity b = 0 \<or> bundlePrice b = 0
             then basePrice item * q
             else (q div buyQuantity b) * bundlePrice b
                  + (q mod \<bar>buyQuantity b\<bar>) * basePrice item))
   \<and> (\<forall>b. 0 \<le> q \<and> bundle item = Some b \<and> enabled b \<and> 0 < buyQuantity b
            \<and> bundlePrice b \<noteq> 0 \<longrightarrow>
          calculateItemTotal item q =
            (q div buyQuantity b) * bundlePrice b + (q mod buyQuantity b) * basePrice item)
   \<and> calculateItemTotal iced_latte 2 = 60000
   \<and> calculateItemTotal iced_latte 3 = 95000
   \<and> calculateItemTotal iced_latte 5 = 155000"
proof -
  have general: "0 \<le> q \<longrightarrow>
      calculateItemTotal item q =
        (case bundle item of
           None \<Rightarrow> basePrice item * q
         | Some b \<Rightarrow>
             if \<not> enabled b \<or> buyQuantity b = 0 \<or> bundlePrice b = 0
             then basePrice item * q
             else (q div buyQuantity b) * bundlePrice b
                  + (q mod \<bar>buyQuantity b\<bar>) * basePrice item)"
    by (cases "bundle item")
       (simp_all add: calculateItemTotal_def math_floor_div_def js_rem_nonneg Let_def)
  have positive: "\<forall>b. 0 \<le> q \<and> bundle item = Some b \<and> enabled b \<and> 0 < buyQuantity b
            \<and> bundlePrice b \<noteq> 0 \<longrightarrow>
          calculateItemTotal item q =
            (q div buyQuantity b) * bundlePrice b + (q mod buyQuantity b) * basePrice item"
    by (simp add: calculateItemTotal_def math_floor_div_def js_rem_nonneg Let_def)
  have two: "calculateItemTotal iced_latte 2 = 60000"
    by (simp add: calculateItemTotal_def iced_latte_def math_floor_div_def js_rem_def)
  have three: "calculateItemTotal iced_latte 3 = 95000"
    by (simp add: calculateItemTotal_def iced_latte_def math_floor_div_def js_rem_def)
  have five: "calculateItemTotal iced_latte 5 = 155000"
    by (simp add: calculateItemTotal_def iced_latte_def math_floor_div_def js_rem_def)
  from general positive two three five show ?thesis by blast
qed

theorem calculateItemTotal_spec_witness:
  "(0::int) \<le> 7 \<and> calculateItemTotal iced_latte 7 = (7 div 2) * 60000 + (7 mod 2) * 35000"
  using calculateItemTotal_spec [of 7 iced_latte]
  by (simp add: iced_latte_def)

text \<open>
  C7 as stated fails: a bundle that is enabled with \<open>bundlePrice = 0\<close> (or with
  \<open>buyQuantity = 0\<close>) is priced per unit, so one multiple of \<open>buyQuantity = 2\<close> at base
  price 35000 costs 70000 and not \<open>1 * 0\<close>.
\<close>

theorem free_bundle_counterexample:
  "calculateItemTotal
     (iced_latte\<lparr> bundle := Some \<lparr> enabled = True, buyQuantity = 2, bundlePrice = 0,
                                    showPromoLabel = False \<rparr> \<rparr>) (1 * 2) \<noteq> 1 * 0"
  by (simp add: calculateItemTotal_def iced_latte_def)

text \<open>
  C7, amended. For an enabled bundle with \<open>buyQuantity = b\<close> and \<open>bundlePrice = p\<close>, both
  different from 0, and every \<open>k \<ge> 0\<close>, the total of \<open>k * b\<close> units is \<open>k * p\<close>.
\<close>

theorem calculateItemTotal_multiple:
  assumes "bundle item = Some b" and "enabled b"
    and "buyQuantity b \<noteq> 0" and "bundlePrice b \<noteq> 0" and "0 \<le> k"
  shows "calculateItemTotal item (k * buyQuantity b) = k * bundlePrice b"
  using assms
  by (simp add: calculateItemTotal_def math_floor_div_def js_rem_multiple Let_def)

theorem calculateItemTotal_multiple_witness:
  "(0::int) \<le> 4 \<and> calculateItemTotal iced_latte (4 * 2) = 4 * 60000"
  using calculateItemTotal_multiple
    [of iced_latte "\<lparr> enabled = True, buyQuantity = 2, bundlePrice = 60000,
                      showPromoLabel = True \<rparr>" 4]
  by (simp add: iced_latte_def)

section \<open>Properties of the kitchen workflow\<close>

lemma find_updated:
  "find (\<lambda>o'. order_id o' = oid) xs = Some ord \<Longrightarrow>
   find (\<lambda>o'. order_id o' = oid)
     (map (\<lambda>o'. if order_id o' = oid then o'\<lparr> items := its, status := st \<rparr> else o') xs)
   = Some (ord\<lparr> items := its, status := st \<rparr>)"
proof (induction xs)
  case Nil
  then show ?case by simp
next
  case (Cons a xs)
  then show ?case by (cases "order_id a = oid") simp_all
qed

lemma status_updated:
  assumes "o' \<in> set (map (\<lambda>x. if order_id x = oid then x\<lparr> items := its, status := st \<rparr>
                                else x) xs)"
    and "order_id o' = oid"
  shows "status o' = st \<and> items o' = its"
proof -
  from assms(1) obtain y where y: "y \<in> set xs"
    and o': "o' = (if order_id y = oid then y\<lparr> items := its, status := st \<rparr> else y)"
    by auto
  show ?thesis
  proof (cases "order_id y = oid")
    case True
    with o' show ?thesis by simp
  next
    case False
    with o' assms(2) show ?thesis by simp
  qed
qed

lemma newStatus_active:
  assumes "current \<noteq> Cancelled" and "current \<noteq> PickedUp"
  shows "newStatus current its =
     (if length (filter (\<lambda>i. isPrepared i = Some True) its) = 0 then Pending
      else if length (filter (\<lambda>i. isPrepared i = Some True) its) < length its then Preparing
      else Completed)"
proof -
  define p where "p = length (filter (\<lambda>i. isPrepared i = Some True) its)"
  have "p \<le> length its"
    unfolding p_def by (rule length_filter_le)
  then have "(if p = 0 then Pending else if p = length its then Completed else Preparing)
      = (if p = 0 then Pending else if p < length its then Preparing else Completed)"
    by auto
  then show ?thesis
    using assms unfolding newStatus_def truthy_def Let_def p_def by simp
qed

lemma newStatus_terminal:
  "current = Cancelled \<or> current = PickedUp \<Longrightarrow> newStatus current its = current"
  by (auto simp: newStatus_def Let_def)

lemma toggle_found:
  "find (\<lambda>o'. order_id o' = orderId) (orders s) = Some ord \<Longrightarrow>
   toggleOrderItemPrepared s orderId itemId =
     (if isRealtime s \<and> supabase s
      then (s, [OrdersUpdate orderId (updatedItems (items ord) itemId)
                  (newStatus (status ord) (updatedItems (items ord) itemId))])
      else (s\<lparr> orders := map (\<lambda>o'. if order_id o' = orderId
                 then o'\<lparr> items := updatedItems (items ord) itemId,
                          status := newStatus (status ord) (updatedItems (items ord) itemId) \<rparr>
                 else o') (orders s) \<rparr>, []))"
  by (simp add: toggleOrderItemPrepared_def Let_def)

lemma toggle_not_found:
  "find (\<lambda>o'. order_id o' = orderId) (orders s) = None \<Longrightarrow>
   toggleOrderItemPrepared s orderId itemId = (s, [])"
  by (simp add: toggleOrderItemPrepared_def)

text \<open>An order of three items: none prepared, one prepared, all prepared.\<close>

lemma kitchen_lifecycle:
  "map status (orders (fst (toggle_many (local_store [three_item_order Pending]) [])))
     = [Pending]"
  "map status (orders (fst (toggle_many (local_store [three_item_order Pending])
                              [(''o1'', ''1'')])))
     = [Preparing]"
  "map status (orders (fst (toggle_many (local_store [three_item_order Pending])
                              [(''o1'', ''1''), (''o1'', ''2''), (''o1'', ''3'')])))
     = [Completed]"
  by (simp_all add: local_store_def three_item_order_def cart_line_def
        toggle_many_def toggle_step_def toggleOrderItemPrepared_def updatedItems_def
        newStatus_def truthy_def sync_local_storage_def Let_def)

text \<open>
  C3. When the order looked up by \<open>orderId\<close> is neither \<open>Cancelled\<close> nor \<open>PickedUp\<close>,
  a toggle sets its status from the prepared count of the updated items: \<open>Pending\<close> when
  the count is 0, \<open>Preparing\<close> when it is strictly between 0 and the number of items,
  \<open>Completed\<close> when it equals the number of items, which is then positive. On local
  storage the stored order takes the updated items and that status; on the realtime
  backend they are the content of the one update request.
\<close>

theorem toggle_derives_status:
  assumes "find (\<lambda>o'. order_id o' = orderId) (orders s) = Some ord"
    and "status ord \<noteq> Cancelled" and "status ord \<noteq> PickedUp"
  shows
    "(let its = updatedItems (items ord) itemId;
          prepared = length (filter (\<lambda>i. isPrepared i = Some True) its);
          n = length its;
          st = (if prepared = 0 then Pending
                else if 0 < prepared \<and> prepared < n then Preparing
                else Completed);
          r = toggleOrderItemPrepared s orderId itemId
      in prepared \<le> n
         \<and> (st = Completed \<longrightarrow> prepared = n \<and> 0 < n)
         \<and> (if isRealtime s \<and> supabase s
            then r = (s, [OrdersUpdate orderId its st])
            else snd r = []
                 \<and> find (\<lambda>o'. order_id o' = orderId) (orders (fst r))
                     = Some (ord\<lparr> items := its, status := st \<rparr>)
                 \<and> (\<forall>o' \<in> set (orders (fst r)). order_id o' = orderId \<longrightarrow> status o' = st)))"
proof -
  define its where "its = updatedItems (items ord) itemId"
  define p where "p = length (filter (\<lambda>i. isPrepared i = Some True) its)"
  define st where "st = (if p = 0 then Pending
                else if 0 < p \<and> p < length its then Preparing
                else Completed)"
  define r where "r = toggleOrderItemPrepared s orderId itemId"
  have le: "p \<le> length its" unfolding p_def by (rule length_filter_le)
  have st: "newStatus (status ord) its = st"
    using assms(2,3) unfolding st_def p_def by (simp add: newStatus_active)
  have compl: "st = Completed \<longrightarrow> p = length its \<and> 0 < length its"
    using le unfolding st_def by (cases "p = 0"; cases "p < length its") simp_all
  have mode: "if isRealtime s \<and> supabase s
            then r = (s, [OrdersUpdate orderId its st])
            else snd r = []
                 \<and> find (\<lambda>o'. order_id o' = orderId) (orders (fst r))
                     = Some (ord\<lparr> items := its, status := st \<rparr>)
                 \<and> (\<forall>o' \<in> set (orders (fst r)). order_id o' = orderId \<longrightarrow> status o' = st)"
  proof (cases "isRealtime s \<and> supabase s")
    case True
    then have "r = (s, [OrdersUpdate orderId its st])"
      unfolding r_def using toggle_found [OF assms(1), of itemId] st its_def by simp
    with True show ?thesis by simp
  next
    case False
    then have r: "r =
        (s\<lparr> orders := map (\<lambda>o'. if order_id o' = orderId
                 then o'\<lparr> items := its, status := st \<rparr> else o') (orders s) \<rparr>, [])"
      unfolding r_def using toggle_found [OF assms(1), of itemId] st its_def by simp
    have f: "find (\<lambda>o'. order_id o' = orderId) (orders (fst r))
        = Some (ord\<lparr> items := its, status := st \<rparr>)"
      unfolding r using find_updated [OF assms(1)] by simp
    have a: "\<forall>o' \<in> set (orders (fst r)). order_id o' = orderId \<longrightarrow> status o' = st"
    proof (intro ballI impI)
      fix o' assume mem: "o' \<in> set (orders (fst r))" and oid: "order_id o' = orderId"
      from mem have "o' \<in> set (map (\<lambda>x. if order_id x = orderId
                 then x\<lparr> items := its, status := st \<rparr> else x) (orders s))"
        unfolding r by simp
      from status_updated [OF this oid] show "status o' = st" by simp
    qed
    have "snd r = []" unfolding r by simp
    with False f a show ?thesis by auto
  qed
  from le compl mode show ?thesis
    unfolding Let_def its_def [symmetric] p_def [symmetric] st_def [symmetric] r_def [symmetric]
    by blast
qed

theorem toggle_derives_status_witness:
  "find (\<lambda>o'. order_id o' = ''o1'') (orders (local_store [three_item_order Pending]))
     = Some (three_item_order Pending)
   \<and> status (three_item_order Pending) \<noteq> Cancelled
   \<and> status (three_item_order Pending) \<noteq> PickedUp
   \<and> map_option status
        (find (\<lambda>o'. order_id o' = ''o1'')
           (orders (fst (toggleOrderItemPrepared (local_store [three_item_order Pending])
                           ''o1'' ''2''))))
      = Some Preparing"
  using toggle_derives_status
    [of "''o1''" "local_store [three_item_order Pending]" "three_item_order Pending" "''2''"]
  by (simp add: local_store_def three_item_order_def cart_line_def updatedItems_def
        truthy_def Let_def)

lemma toggle_local:
  assumes "find (\<lambda>o'. order_id o' = orderId) (orders s) = Some ord"
    and "\<not> (isRealtime s \<and> supabase s)"
    and "its = updatedItems (items ord) itemId"
    and "st = newStatus (status ord) its"
    and "r = toggleOrderItemPrepared s orderId itemId"
  shows "snd r = []"
    and "find (\<lambda>o'. order_id o' = orderId) (orders (fst r))
           = Some (ord\<lparr> items := its, status := st \<rparr>)"
    and "\<forall>o' \<in> set (orders (fst r)). order_id o' = orderId \<longrightarrow> status o' = st \<and> items o' = its"
    and "isRealtime (fst r) = isRealtime s"
proof -
  have r: "r = (s\<lparr> orders := map (\<lambda>o'. if order_id o' = orderId
                 then o'\<lparr> items := its, status := st \<rparr> else o') (orders s) \<rparr>, [])"
    using toggle_found [OF assms(1), of itemId] assms(2-5) by simp
  show "snd r = []" unfolding r by simp
  show "isRealtime (fst r) = isRealtime s" unfolding r by simp
  show "find (\<lambda>o'. order_id o' = orderId) (orders (fst r))
           = Some (ord\<lparr> items := its, status := st \<rparr>)"
    unfolding r using find_updated [OF assms(1)] by simp
  show "\<forall>o' \<in> set (orders (fst r)). order_id o' = orderId \<longrightarrow> status o' = st \<and> items o' = its"
  proof (intro ballI impI)
    fix o' assume mem: "o' \<in> set (orders (fst r))" and oid: "order_id o' = orderId"
    from mem have "o' \<in> set (map (\<lambda>x. if order_id x = orderId
                 then x\<lparr> items := its, status := st \<rparr> else x) (orders s))"
      unfolding r by simp
    from status_updated [OF this oid] show "status o' = st \<and> items o' = its" .
  qed
qed

lemma toggle_realtime:
  assumes "find (\<lambda>o'. order_id o' = orderId) (orders s) = Some ord"
    and "isRealtime s \<and> supabase s"
  shows "toggleOrderItemPrepared s orderId itemId =
           (s, [OrdersUpdate orderId (updatedItems (items ord) itemId)
                  (newStatus (status ord) (updatedItems (items ord) itemId))])"
  using toggle_found [OF assms(1), of itemId] assms(2) by simp

lemma orders_sync [simp]: "orders (sync_local_storage s) = orders s"
  by (simp add: sync_local_storage_def)

lemma isRealtime_sync [simp]: "isRealtime (sync_local_storage s) = isRealtime s"
  by (simp add: sync_local_storage_def)

lemma supabase_sync [simp]: "supabase (sync_local_storage s) = supabase s"
  by (simp add: sync_local_storage_def)

lemma pos_orders_sync:
  "\<not> isRealtime s \<Longrightarrow> pos_orders (sync_local_storage s) = Some (orders s)"
  by (simp add: sync_local_storage_def)

lemma updatedItems_Nil [simp]: "updatedItems [] itemId = []"
  by (simp add: updatedItems_def)

lemma length_updatedItems [simp]: "length (updatedItems its itemId) = length its"
  by (simp add: updatedItems_def)

lemma nth_updatedItems:
  "k < length its \<Longrightarrow>
   updatedItems its itemId ! k =
     (if item_id (its ! k) = itemId
      then (its ! k)\<lparr> isPrepared := Some (isPrepared (its ! k) \<noteq> Some True) \<rparr>
      else its ! k)"
  by (simp add: updatedItems_def truthy_def)

lemma updatedItems_changes:
  assumes "i \<in> set its" and "item_id i = itemId"
  shows "updatedItems its itemId \<noteq> its"
proof
  assume eq: "updatedItems its itemId = its"
  from assms(1) obtain k where k: "k < length its" and i: "its ! k = i"
    by (auto simp: in_set_conv_nth)
  from eq have "isPrepared (updatedItems its itemId ! k) = isPrepared (its ! k)" by simp
  with k i assms(2) have "Some (isPrepared i \<noteq> Some True) = isPrepared i"
    by (simp add: nth_updatedItems)
  then show False by (cases "isPrepared i") auto
qed

text \<open>
  C8. For an order without line items that is neither \<open>Cancelled\<close> nor \<open>PickedUp\<close>, a
  toggle sets the status to \<open>Pending\<close>, never to \<open>Completed\<close>, and it fails in no way:
  the function has a result for every input.
\<close>

theorem toggle_empty_order_pending:
  assumes "find (\<lambda>o'. order_id o' = orderId) (orders s) = Some ord"
    and "items ord = []"
    and "status ord \<noteq> Cancelled" and "status ord \<noteq> PickedUp"
  shows
    "(let r = toggleOrderItemPrepared s orderId itemId
      in if isRealtime s \<and> supabase s
         then r = (s, [OrdersUpdate orderId [] Pending])
         else snd r = []
              \<and> find (\<lambda>o'. order_id o' = orderId) (orders (fst r))
                  = Some (ord\<lparr> status := Pending \<rparr>)
              \<and> (\<forall>o' \<in> set (orders (fst r)).
                    order_id o' = orderId \<longrightarrow> status o' = Pending \<and> status o' \<noteq> Completed))"
proof -
  have st: "newStatus (status ord) [] = Pending"
    using assms(3,4) by (simp add: newStatus_def)
  have ord: "ord\<lparr> items := [], status := Pending \<rparr> = ord\<lparr> status := Pending \<rparr>"
    using assms(2) by simp
  show ?thesis
  proof (cases "isRealtime s \<and> supabase s")
    case True
    from toggle_realtime [OF assms(1) True, of itemId] True st assms(2)
    show ?thesis by (simp add: Let_def)
  next
    case False
    note loc = toggle_local [OF assms(1) False, of "[]" itemId Pending
        "toggleOrderItemPrepared s orderId itemId"]
    have a: "snd (toggleOrderItemPrepared s orderId itemId) = []"
      using loc(1) st assms(2) by simp
    have b: "find (\<lambda>o'. order_id o' = orderId)
          (orders (fst (toggleOrderItemPrepared s orderId itemId)))
        = Some (ord\<lparr> status := Pending \<rparr>)"
      using loc(2) st assms(2) ord by simp
    have c: "\<forall>o' \<in> set (orders (fst (toggleOrderItemPrepared s orderId itemId))).
        order_id o' = orderId \<longrightarrow> status o' = Pending \<and> status o' \<noteq> Completed"
      using loc(3) st assms(2) by simp
    from False a b c show ?thesis by (auto simp: Let_def)
  qed
qed

theorem toggle_empty_order_pending_witness:
  "find (\<lambda>o'. order_id o' = ''o2'') (orders (local_store [empty_order])) = Some empty_order
   \<and> items empty_order = []
   \<and> status empty_order = Preparing
   \<and> map_option status
        (find (\<lambda>o'. order_id o' = ''o2'')
           (orders (fst (toggleOrderItemPrepared (local_store [empty_order]) ''o2'' ''1''))))
      = Some Pending"
  using toggle_empty_order_pending
    [of "''o2''" "local_store [empty_order]" empty_order "''1''"]
  by (simp add: local_store_def empty_order_def Let_def)

text \<open>
  C10. For an order that is \<open>Cancelled\<close> or \<open>PickedUp\<close>, a toggle on an item of the order
  still flips the prepared flag of every line with that item id and leaves the other lines
  as they are, so the items change; the updated items are stored (in the collection and,
  on local storage, under \<open>pos_orders\<close>) or sent in the update request, and every other
  field of the order, the status among them, is unchanged.
\<close>

theorem toggle_terminal_updates_items:
  assumes "find (\<lambda>o'. order_id o' = orderId) (orders s) = Some ord"
    and "status ord = Cancelled \<or> status ord = PickedUp"
    and "i \<in> set (items ord)" and "item_id i = itemId"
  shows
    "(let its = updatedItems (items ord) itemId;
          r = toggleOrderItemPrepared s orderId itemId;
          s' = sync_local_storage (fst r)
      in length its = length (items ord)
         \<and> (\<forall>k < length its.
               its ! k =
                 (if item_id (items ord ! k) = itemId
                  then (items ord ! k)\<lparr> isPrepared :=
                         Some (isPrepared (items ord ! k) \<noteq> Some True) \<rparr>
                  else items ord ! k))
         \<and> its \<noteq> items ord
         \<and> (if isRealtime s \<and> supabase s
            then r = (s, [OrdersUpdate orderId its (status ord)])
            else snd r = []
                 \<and> find (\<lambda>o'. order_id o' = orderId) (orders s') = Some (ord\<lparr> items := its \<rparr>)
                 \<and> (\<forall>o' \<in> set (orders s').
                       order_id o' = orderId \<longrightarrow> items o' = its \<and> status o' = status ord)
                 \<and> (\<not> isRealtime s \<longrightarrow> pos_orders s' = Some (orders s'))))"
proof -
  define its where "its = updatedItems (items ord) itemId"
  define r where "r = toggleOrderItemPrepared s orderId itemId"
  define s' where "s' = sync_local_storage (fst r)"
  have st: "newStatus (status ord) its = status ord"
    using assms(2) by (rule newStatus_terminal)
  have len: "length its = length (items ord)"
    unfolding its_def by simp
  have nth: "\<forall>k < length its.
               its ! k =
                 (if item_id (items ord ! k) = itemId
                  then (items ord ! k)\<lparr> isPrepared :=
                         Some (isPrepared (items ord ! k) \<noteq> Some True) \<rparr>
                  else items ord ! k)"
    unfolding its_def by (simp add: nth_updatedItems)
  have chg: "its \<noteq> items ord"
    unfolding its_def using assms(3,4) by (rule updatedItems_changes)
  have mode: "if isRealtime s \<and> supabase s
            then r = (s, [OrdersUpdate orderId its (status ord)])
            else snd r = []
                 \<and> find (\<lambda>o'. order_id o' = orderId) (orders s') = Some (ord\<lparr> items := its \<rparr>)
                 \<and> (\<forall>o' \<in> set (orders s').
                       order_id o' = orderId \<longrightarrow> items o' = its \<and> status o' = status ord)
                 \<and> (\<not> isRealtime s \<longrightarrow> pos_orders s' = Some (orders s'))"
  proof (cases "isRealtime s \<and> supabase s")
    case True
    from toggle_realtime [OF assms(1) True, of itemId] st True
    show ?thesis unfolding r_def its_def by simp
  next
    case False
    note loc = toggle_local [OF assms(1) False its_def refl r_def]
    have same: "ord\<lparr> items := its, status := status ord \<rparr> = ord\<lparr> items := its \<rparr>"
      by simp
    have a: "snd r = []" by (rule loc(1))
    have b: "find (\<lambda>o'. order_id o' = orderId) (orders s') = Some (ord\<lparr> items := its \<rparr>)"
      unfolding s'_def using loc(2) st same by simp
    have c: "\<forall>o' \<in> set (orders s').
        order_id o' = orderId \<longrightarrow> items o' = its \<and> status o' = status ord"
      unfolding s'_def using loc(3) st by simp
    have d: "\<not> isRealtime s \<longrightarrow> pos_orders s' = Some (orders s')"
      unfolding s'_def using loc(4) by (simp add: pos_orders_sync)
    from False a b c d show ?thesis by auto
  qed
  from len nth chg mode show ?thesis
    unfolding Let_def its_def [symmetric] r_def [symmetric] s'_def [symmetric]
    by blast
qed

theorem toggle_terminal_updates_items_witness:
  "find (\<lambda>o'. order_id o' = ''o1'') (orders (local_store [three_item_order PickedUp]))
     = Some (three_item_order PickedUp)
   \<and> status (three_item_order PickedUp) = PickedUp
   \<and> cart_line ''2'' (Some False) \<in> set (items (three_item_order PickedUp))
   \<and> find (\<lambda>o'. order_id o' = ''o1'')
        (orders (sync_local_storage
           (fst (toggleOrderItemPrepared (local_store [three_item_order PickedUp])
                   ''o1'' ''2''))))
      = Some ((three_item_order PickedUp)
               \<lparr> items := [cart_line ''1'' (Some False), cart_line ''2'' (Some True),
                            cart_line ''3'' (Some False)] \<rparr>)"
  using toggle_terminal_updates_items
    [of "''o1''" "local_store [three_item_order PickedUp]" "three_item_order PickedUp"
        "cart_line ''2'' (Some False)" "''2''"]
  by (simp add: local_store_def three_item_order_def cart_line_def updatedItems_def
        truthy_def Let_def)

lemma find_SomeD: "find P xs = Some x \<Longrightarrow> P x \<and> x \<in> set xs"
  by (auto simp: find_Some_iff)

lemma toggle_keeps_ids:
  "map order_id (orders (fst (toggleOrderItemPrepared s orderId itemId)))
     = map order_id (orders s)"
proof (cases "find (\<lambda>o'. order_id o' = orderId) (orders s)")
  case None
  then show ?thesis by (simp add: toggle_not_found)
next
  case (Some ord)
  have "map order_id (map (\<lambda>o'. if order_id o' = orderId
            then o'\<lparr> items := its, status := st \<rparr> else o') xs) = map order_id xs"
    for its st and xs :: "order list"
    by (induction xs) simp_all
  then show ?thesis
    by (simp add: toggle_found [OF Some])
qed

lemma toggle_local_others:
  assumes "find (\<lambda>o'. order_id o' = orderId) (orders s) = Some ord"
    and "\<not> (isRealtime s \<and> supabase s)"
    and "r = toggleOrderItemPrepared s orderId itemId"
    and "o' \<in> set (orders (fst r))" and "order_id o' \<noteq> orderId"
  shows "o' \<in> set (orders s)"
proof -
  define its where "its = updatedItems (items ord) itemId"
  define st where "st = newStatus (status ord) its"
  have "r = (s\<lparr> orders := map (\<lambda>x. if order_id x = orderId
                 then x\<lparr> items := its, status := st \<rparr> else x) (orders s) \<rparr>, [])"
    using toggle_found [OF assms(1), of itemId] assms(2,3) its_def st_def by simp
  with assms(4) obtain y where y: "y \<in> set (orders s)"
    and o': "o' = (if order_id y = orderId then y\<lparr> items := its, status := st \<rparr> else y)"
    by auto
  show ?thesis
  proof (cases "order_id y = orderId")
    case True
    with o' assms(5) show ?thesis by simp
  next
    case False
    with o' y show ?thesis by simp
  qed
qed

lemma toggle_keeps_terminal:
  assumes all: "\<forall>o' \<in> set (orders s). order_id o' = x \<longrightarrow> status o' = st"
    and terminal: "st = Cancelled \<or> st = PickedUp"
    and r: "r = toggleOrderItemPrepared s orderId itemId"
  shows "\<forall>o' \<in> set (orders (fst r)). order_id o' = x \<longrightarrow> status o' = st"
    and "\<forall>its st'. OrdersUpdate x its st' \<in> set (snd r) \<longrightarrow> st' = st"
proof -
  have both: "(\<forall>o' \<in> set (orders (fst r)). order_id o' = x \<longrightarrow> status o' = st)
      \<and> (\<forall>its st'. OrdersUpdate x its st' \<in> set (snd r) \<longrightarrow> st' = st)"
  proof (cases "find (\<lambda>o'. order_id o' = orderId) (orders s)")
    case None
    then have "r = (s, [])" unfolding r by (rule toggle_not_found)
    with all show ?thesis by simp
  next
    case (Some ord)
    define its where "its = updatedItems (items ord) itemId"
    from find_SomeD [OF Some] have ord: "order_id ord = orderId" "ord \<in> set (orders s)"
      by simp_all
    have new: "orderId = x \<Longrightarrow> newStatus (status ord) its = st"
    proof -
      assume "orderId = x"
      with ord all have "status ord = st" by simp
      with terminal show ?thesis by (simp add: newStatus_terminal)
    qed
    show ?thesis
    proof (cases "isRealtime s \<and> supabase s")
      case True
      have "r = (s, [OrdersUpdate orderId its (newStatus (status ord) its)])"
        unfolding r its_def by (rule toggle_realtime [OF Some True])
      with all new show ?thesis by auto
    next
      case False
      note loc = toggle_local [OF Some False its_def refl r]
      have "status o' = st" if mem: "o' \<in> set (orders (fst r))" and x: "order_id o' = x" for o'
      proof (cases "orderId = x")
        case True
        with loc(3) mem x new show ?thesis by simp
      next
        case other: False
        with x have "order_id o' \<noteq> orderId" by simp
        from toggle_local_others [OF Some False r mem this] have "o' \<in> set (orders s)" .
        with all x show ?thesis by simp
      qed
      with loc(1) show ?thesis by simp
    qed
  qed
  from both show "\<forall>o' \<in> set (orders (fst r)). order_id o' = x \<longrightarrow> status o' = st" by blast
  from both show "\<forall>its st'. OrdersUpdate x its st' \<in> set (snd r) \<longrightarrow> st' = st" by blast
qed

lemma toggle_step_keeps_ids:
  "map order_id (orders (fst (toggle_step acc call))) = map order_id (orders (fst acc))"
  using toggle_keeps_ids [of "fst acc" "fst call" "snd call"]
  by (simp add: toggle_step_def split_beta)

lemma toggle_step_keeps_terminal:
  assumes "\<forall>o' \<in> set (orders (fst acc)). order_id o' = x \<longrightarrow> status o' = st"
    and "\<forall>its st'. OrdersUpdate x its st' \<in> set (snd acc) \<longrightarrow> st' = st"
    and "st = Cancelled \<or> st = PickedUp"
  shows "\<forall>o' \<in> set (orders (fst (toggle_step acc call))). order_id o' = x \<longrightarrow> status o' = st"
    and "\<forall>its st'. OrdersUpdate x its st' \<in> set (snd (toggle_step acc call)) \<longrightarrow> st' = st"
proof -
  note keep = toggle_keeps_terminal [OF assms(1) assms(3) refl, of "fst call" "snd call"]
  from keep(1)
  show "\<forall>o' \<in> set (orders (fst (toggle_step acc call))). order_id o' = x \<longrightarrow> status o' = st"
    by (simp add: toggle_step_def split_beta)
  from keep(2) assms(2)
  show "\<forall>its st'. OrdersUpdate x its st' \<in> set (snd (toggle_step acc call)) \<longrightarrow> st' = st"
    by (auto simp: toggle_step_def split_beta)
qed

lemma foldl_toggle_step:
  assumes "\<forall>o' \<in> set (orders (fst acc)). order_id o' = x \<longrightarrow> status o' = st"
    and "\<forall>its st'. OrdersUpdate x its st' \<in> set (snd acc) \<longrightarrow> st' = st"
    and "st = Cancelled \<or> st = PickedUp"
  shows "map order_id (orders (fst (foldl toggle_step acc calls))) = map order_id (orders (fst acc))
    \<and> (\<forall>o' \<in> set (orders (fst (foldl toggle_step acc calls))). order_id o' = x \<longrightarrow> status o' = st)
    \<and> (\<forall>its st'. OrdersUpdate x its st' \<in> set (snd (foldl toggle_step acc calls)) \<longrightarrow> st' = st)"
  using assms(1,2)
proof (induction calls arbitrary: acc)
  case Nil
  then show ?case by simp
next
  case (Cons call calls)
  note step = toggle_step_keeps_terminal [OF Cons.prems(1) Cons.prems(2) assms(3), of call]
  from Cons.IH [OF step] toggle_step_keeps_ids [of acc call]
  show ?case by simp
qed

text \<open>
  C4. In a store whose orders have distinct ids, an order that is \<open>Cancelled\<close> or
  \<open>PickedUp\<close> keeps its status through every sequence of toggles, on any order and any
  item: after the sequence the store holds the same order ids, the order with this id has
  the status it had, and every update request sent for it carries that status.
\<close>

theorem toggle_terminal_absorbing:
  assumes "distinct (map order_id (orders s))"
    and "ord \<in> set (orders s)"
    and "status ord = Cancelled \<or> status ord = PickedUp"
  shows
    "(let r = toggle_many s calls
      in map order_id (orders (fst r)) = map order_id (orders s)
         \<and> (\<exists>o' \<in> set (orders (fst r)). order_id o' = order_id ord)
         \<and> (\<forall>o' \<in> set (orders (fst r)).
               order_id o' = order_id ord \<longrightarrow> status o' = status ord)
         \<and> (\<forall>its st. OrdersUpdate (order_id ord) its st \<in> set (snd r) \<longrightarrow> st = status ord))"
proof -
  have only: "\<forall>o' \<in> set (orders (fst (s, []))).
      order_id o' = order_id ord \<longrightarrow> status o' = status ord"
  proof (intro ballI impI)
    fix o' assume "o' \<in> set (orders (fst (s, [])))" and "order_id o' = order_id ord"
    with assms(1,2) have "o' = ord"
      by (auto simp: distinct_map dest: inj_onD)
    then show "status o' = status ord" by simp
  qed
  have none: "\<forall>its st'. OrdersUpdate (order_id ord) its st' \<in> set (snd (s, [])) \<longrightarrow> st' = status ord"
    by simp
  note inv = foldl_toggle_step [OF only none assms(3), of calls]
  from inv have ids: "map order_id (orders (fst (toggle_many s calls))) = map order_id (orders s)"
    by (simp add: toggle_many_def)
  from assms(2) have "order_id ord \<in> set (map order_id (orders s))" by simp
  with ids have "order_id ord \<in> set (map order_id (orders (fst (toggle_many s calls))))"
    by simp
  then have ex: "\<exists>o' \<in> set (orders (fst (toggle_many s calls))). order_id o' = order_id ord"
    by auto
  from inv ids ex show ?thesis
    by (simp add: toggle_many_def Let_def)
qed

theorem toggle_terminal_absorbing_witness:
  "distinct (map order_id (orders (local_store [three_item_order Cancelled, empty_order])))
   \<and> three_item_order Cancelled \<in> set (orders (local_store [three_item_order Cancelled, empty_order]))
   \<and> status (three_item_order Cancelled) = Cancelled
   \<and> map status
        (orders (fst (toggle_many (local_store [three_item_order Cancelled, empty_order])
                        [(''o1'', ''1''), (''o2'', ''1''), (''o1'', ''2''), (''o1'', ''1'')])))
      = [Cancelled, Pending]"
  using toggle_terminal_absorbing
    [of "local_store [three_item_order Cancelled, empty_order]" "three_item_order Cancelled"
        "[(''o1'', ''1''), (''o2'', ''1''), (''o1'', ''2''), (''o1'', ''1'')]"]
  by (simp add: local_store_def three_item_order_def empty_order_def cart_line_def
        toggle_many_def toggle_step_def toggleOrderItemPrepared_def updatedItems_def
        newStatus_def truthy_def sync_local_storage_def Let_def)

section \<open>Properties of order creation\<close>

text \<open>
  C1 as stated fails: on local storage, the order returned for an input with payment
  status \<open>Paid\<close> has the status \<open>Paid\<close>, not \<open>Pending\<close>.
\<close>

theorem createOrder_paid_counterexample:
  "map_option status
     (snd (snd (createOrder (local_store []) (\<lambda>doc. None) ''o9''
                  ''2024-01-01T00:00:00.000Z'' paid_order_data)))
   \<noteq> Some Pending"
  by (simp add: createOrder_def newOrderLocal_def local_store_def paid_order_data_def Let_def)

text \<open>
  C1, amended. The order \<open>createOrder\<close> builds has the status \<open>Paid\<close> for an input whose
  payment status is \<open>Paid\<close>, and the status \<open>Pending\<close> for an input whose payment status
  is \<open>Unpaid\<close>. On local storage this order is returned and put at the head of the
  collection; on the realtime backend the status is sent in the insert request, and the
  order returned is the row of the answer, with that status when the backend stored the
  document as sent.
\<close>

theorem createOrder_seeded_status:
  "(let seeded = (case od_paymentStatus orderData of
                    PaymentPaid \<Rightarrow> Paid
                  | PaymentUnpaid \<Rightarrow> Pending);
        r = createOrder s backend generated_id now orderData
    in if isRealtime s \<and> supabase s
       then fst r = s
            \<and> (\<exists>doc. fst (snd r) = [OrdersInsert doc] \<and> oi_status doc = seeded
                  \<and> oi_payment_status doc = od_paymentStatus orderData
                  \<and> snd (snd r) = map_option mapDbOrder (backend doc)
                  \<and> (\<forall>new_id t. backend doc = Some (orders_insert new_id t doc) \<longrightarrow>
                        map_option status (snd (snd r)) = Some seeded))
       else fst (snd r) = []
            \<and> (\<exists>new. snd (snd r) = Some new \<and> status new = seeded
                  \<and> paymentStatus new = od_paymentStatus orderData
                  \<and> orders (fst r) = new # orders s))"
proof -
  define seeded where "seeded = (case od_paymentStatus orderData of
                    PaymentPaid \<Rightarrow> Paid
                  | PaymentUnpaid \<Rightarrow> Pending)"
  define r where "r = createOrder s backend generated_id now orderData"
  have seed: "status (newOrderLocal generated_id now orderData) = seeded"
    unfolding seeded_def
    by (cases "od_paymentStatus orderData") (simp_all add: newOrderLocal_def)
  have pay: "paymentStatus (newOrderLocal generated_id now orderData)
      = od_paymentStatus orderData"
    by (simp add: newOrderLocal_def)
  have mode: "if isRealtime s \<and> supabase s
       then fst r = s
            \<and> (\<exists>doc. fst (snd r) = [OrdersInsert doc] \<and> oi_status doc = seeded
                  \<and> oi_payment_status doc = od_paymentStatus orderData
                  \<and> snd (snd r) = map_option mapDbOrder (backend doc)
                  \<and> (\<forall>new_id t. backend doc = Some (orders_insert new_id t doc) \<longrightarrow>
                        map_option status (snd (snd r)) = Some seeded))
       else fst (snd r) = []
            \<and> (\<exists>new. snd (snd r) = Some new \<and> status new = seeded
                  \<and> paymentStatus new = od_paymentStatus orderData
                  \<and> orders (fst r) = new # orders s)"
  proof (cases "isRealtime s \<and> supabase s")
    case True
    define doc where "doc = \<lparr> oi_customer_name = od_customerName orderData,
        oi_items = items (newOrderLocal generated_id now orderData),
        oi_total = od_total orderData,
        oi_status = status (newOrderLocal generated_id now orderData),
        oi_payment_status = od_paymentStatus orderData,
        oi_note = od_note orderData \<rparr>"
    have r: "r = (s, [OrdersInsert doc], map_option mapDbOrder (backend doc))"
      using True unfolding r_def createOrder_def Let_def doc_def
      by (cases "backend doc") (simp_all add: doc_def)
    have sent: "oi_status doc = seeded"
      using seed by (simp add: doc_def)
    have stored: "\<forall>new_id t. backend doc = Some (orders_insert new_id t doc) \<longrightarrow>
        map_option status (map_option mapDbOrder (backend doc)) = Some seeded"
      using sent by (simp add: orders_insert_def mapDbOrder_def)
    have "\<exists>d. fst (snd r) = [OrdersInsert d] \<and> oi_status d = seeded
          \<and> oi_payment_status d = od_paymentStatus orderData
          \<and> snd (snd r) = map_option mapDbOrder (backend d)
          \<and> (\<forall>new_id t. backend d = Some (orders_insert new_id t d) \<longrightarrow>
                map_option status (snd (snd r)) = Some seeded)"
    proof (intro exI [of _ doc] conjI)
      show "fst (snd r) = [OrdersInsert doc]" by (simp add: r)
      show "oi_status doc = seeded" by (rule sent)
      show "oi_payment_status doc = od_paymentStatus orderData" by (simp add: doc_def)
      show "snd (snd r) = map_option mapDbOrder (backend doc)" by (simp add: r)
      show "\<forall>new_id t. backend doc = Some (orders_insert new_id t doc) \<longrightarrow>
                map_option status (snd (snd r)) = Some seeded"
        using stored by (simp add: r)
    qed
    moreover have "fst r = s" by (simp add: r)
    ultimately show ?thesis using True by simp
  next
    case False
    have r: "r = (s\<lparr> orders := newOrderLocal generated_id now orderData # orders s \<rparr>, [],
         Some (newOrderLocal generated_id now orderData))"
      using False unfolding r_def createOrder_def Let_def by auto
    from False r seed pay show ?thesis by auto
  qed
  then show ?thesis
    unfolding Let_def seeded_def [symmetric] r_def [symmetric] .
qed

theorem createOrder_seeded_status_witness:
  "map_option status
     (snd (snd (createOrder (realtime_store [])
                  (\<lambda>doc. Some (orders_insert ''7f3c'' ''2024-01-01T00:00:00+00:00'' doc))
                  ''o9'' ''2024-01-01T00:00:00.000Z'' paid_order_data)))
     = Some Paid
   \<and> map_option status
        (snd (snd (createOrder (local_store []) (\<lambda>doc. None) ''o9''
                     ''2024-01-01T00:00:00.000Z'' paid_order_data)))
      = Some Paid
   \<and> map_option status
        (snd (snd (createOrder (realtime_store [])
                     (\<lambda>doc. Some (orders_insert ''7f3c'' ''2024-01-01T00:00:00+00:00'' doc))
                     ''o9'' ''2024-01-01T00:00:00.000Z'' unpaid_order_data)))
      = Some Pending
   \<and> map_option status
        (snd (snd (createOrder (local_store []) (\<lambda>doc. None) ''o9''
                     ''2024-01-01T00:00:00.000Z'' unpaid_order_data)))
      = Some Pending"
  using createOrder_seeded_status
    [of paid_order_data "realtime_store []"
        "\<lambda>doc. Some (orders_insert ''7f3c'' ''2024-01-01T00:00:00+00:00'' doc)"
        "''o9''" "''2024-01-01T00:00:00.000Z''"]
    createOrder_seeded_status
    [of paid_order_data "local_store []" "\<lambda>doc. None"
        "''o9''" "''2024-01-01T00:00:00.000Z''"]
    createOrder_seeded_status
    [of unpaid_order_data "realtime_store []"
        "\<lambda>doc. Some (orders_insert ''7f3c'' ''2024-01-01T00:00:00+00:00'' doc)"
        "''o9''" "''2024-01-01T00:00:00.000Z''"]
    createOrder_seeded_status
    [of unpaid_order_data "local_store []" "\<lambda>doc. None"
        "''o9''" "''2024-01-01T00:00:00.000Z''"]
  by (simp add: createOrder_def newOrderLocal_def local_store_def realtime_store_def
        paid_order_data_def unpaid_order_data_def orders_insert_def mapDbOrder_def Let_def)

section \<open>Properties of the push notifications\<close>

lemma menu_changes_insert:
  "menu (menu_changes s (INSERT new)) = menu s @ [mapDbMenuItem new]"
  by simp

lemma menu_changes_update:
  "menu (menu_changes s (UPDATE new)) =
     map (\<lambda>item. if item_id item = m_id new then mapDbMenuItem new else item) (menu s)"
  by simp

lemma menu_changes_delete:
  "set (menu (menu_changes s (DELETE old_id))) = {item \<in> set (menu s). item_id item \<noteq> old_id}"
  by simp

lemma orders_changes_insert:
  "orders (orders_changes s (INSERT new)) = mapDbOrder new # orders s"
  by simp

lemma orders_changes_update:
  "orders (orders_changes s (UPDATE new)) =
     map (\<lambda>order. if order_id order = o_id new then mapDbOrder new else order) (orders s)"
  by simp

lemma menu_delete_removes_row:
  "map item_id (menu (menu_changes (realtime_store []) (DELETE ''2''))) = []"
  by (simp add: realtime_store_def iced_latte_def)

text \<open>
  C5 fails on the code for a delete notification on the orders: the handler of the orders
  channel has no branch for it. On the realtime backend \<open>deleteOrder\<close> only sends the
  delete request, and the notification that answers it leaves the order in the collection.
\<close>

theorem orders_delete_notification_ignored:
  "deleteOrder (realtime_store [three_item_order Pending]) ''o1''
     = (realtime_store [three_item_order Pending], [OrdersDelete ''o1''])
   \<and> map order_id
        (orders (orders_changes (realtime_store [three_item_order Pending]) (DELETE ''o1'')))
      = [''o1'']"
  by (simp add: deleteOrder_def realtime_store_def three_item_order_def)

section \<open>Properties of the menu item documents\<close>

text \<open>
  C6 as stated fails: the document \<open>addMenuItem\<close> sends has no image, so the image of a
  menu item is not found again in the row mapped back.
\<close>

theorem menu_item_image_counterexample:
  "item_image
     (mapDbMenuItem
        (menu_items_insert ''5b1e'' ''2024-01-01T00:00:00+00:00'' None
           (addMenuItem_dbItem latte_with_image)))
   \<noteq> item_image latte_with_image"
  by (simp add: mapDbMenuItem_def menu_items_insert_def latte_with_image_def)

text \<open>
  C6, amended. Mapping back the row stored for the document of a menu item gives the
  name, the base price and the category of the item, and its bundle when it has one; an
  item without a bundle gets the default of the column. The row has the generated id and
  no image.
\<close>

theorem menu_item_roundtrip:
  "(let back = mapDbMenuItem (menu_items_insert new_id now dflt (addMenuItem_dbItem item))
    in name back = name item
       \<and> basePrice back = basePrice item
       \<and> category back = category item
       \<and> (bundle item \<noteq> None \<longrightarrow> bundle back = bundle item)
       \<and> (bundle item = None \<longrightarrow> bundle back = dflt)
       \<and> item_image back = None
       \<and> item_id back = new_id)"
  by (cases "bundle item")
     (simp_all add: mapDbMenuItem_def menu_items_insert_def addMenuItem_dbItem_def Let_def)

theorem menu_item_roundtrip_witness:
  "bundle latte_with_image \<noteq> None
   \<and> mapDbMenuItem
        (menu_items_insert ''5b1e'' ''2024-01-01T00:00:00+00:00'' None
           (addMenuItem_dbItem latte_with_image))
      = \<lparr> name = ''Iced Latte'', basePrice = 35000, category = Coffee, item_image = None,
          bundle = bundle latte_with_image, item_id = ''5b1e'' \<rparr>"
  using menu_item_roundtrip
    [of "''5b1e''" "''2024-01-01T00:00:00+00:00''" None latte_with_image]
  by (simp add: mapDbMenuItem_def menu_items_insert_def addMenuItem_dbItem_def
        latte_with_image_def Let_def)

section \<open>Properties of the context hook\<close>

text \<open>
  C9. Without a provider the context is \<open>undefined\<close>, and \<open>useStore\<close> raises the error
  instead of returning a value; with a provider it returns the context.
\<close>

theorem useStore_outside_provider:
  "useStore None = Inl (Error ''useStore must be used within a StoreProvider'')
   \<and> (\<forall>c. useStore (Some c) = Inr c)
   \<and> (\<forall>context. (\<exists>e. useStore context = Inl e) = (context = None))"
  by (auto simp: useStore_def split: option.splits)

end
